theory Spec2Isabelle
  imports Complex_Main "HOL-Library.Word"
begin

section \<open>Tensors\<close>

text \<open>
  The generators of \<^verbatim>\<open>chai_lab/data/features/generators/msa.py\<close> work on torch
  tensors. A tensor is modelled by its shape and its indexing function: \<open>elt T [i, j, k]\<close>
  is \<^verbatim>\<open>T[i, j, k]\<close>. Only the entries whose index lies inside the shape mean anything.
  The dtypes of the source are the element types: \<^verbatim>\<open>UInt8\<close> is \<open>8 word\<close> (arithmetic
  wraps modulo 256), \<^verbatim>\<open>Bool\<close> is \<open>bool\<close>, \<^verbatim>\<open>Int\<close> and torch's 64-bit \<^verbatim>\<open>long\<close>
  are \<open>int\<close>. Floating point is idealised: a float tensor holds \<open>real\<close> numbers and its
  arithmetic is exact.
\<close>

type_synonym u8 = "8 word"

record 'a tensor =
  shape :: "nat list"
  elt :: "nat list \<Rightarrow> 'a"

text \<open>The tensor of the given three dimensions whose entries are read from nested lists.\<close>

definition tensor3 :: "nat \<Rightarrow> nat \<Rightarrow> nat \<Rightarrow> 'a list list list \<Rightarrow> 'a tensor" where
  "tensor3 b d t xs = \<lparr>shape = [b, d, t], elt = (\<lambda>ix. xs ! (ix ! 0) ! (ix ! 1) ! (ix ! 2))\<rparr>"

text \<open>Elementwise application of a unary operation (\<^verbatim>\<open>> 0\<close>, \<^verbatim>\<open>.float()\<close>, \<^verbatim>\<open>~\<close>, \<^verbatim>\<open>.to(dtype)\<close>, ...).\<close>

definition map_tensor :: "('a \<Rightarrow> 'b) \<Rightarrow> 'a tensor \<Rightarrow> 'b tensor" where
  "map_tensor f T = \<lparr>shape = shape T, elt = (\<lambda>ix. f (elt T ix))\<rparr>"

text \<open>\<^verbatim>\<open>T.unsqueeze(-1)\<close>: a trailing dimension of size 1.\<close>

definition unsqueeze_last :: "'a tensor \<Rightarrow> 'a tensor" where
  "unsqueeze_last T = \<lparr>shape = shape T @ [1], elt = (\<lambda>ix. elt T (butlast ix))\<rparr>"

text \<open>\<^verbatim>\<open>T[..., :1]\<close>: the slice keeps every leading dimension and the first entry of the
  last one (none when the last dimension is empty).\<close>

definition slice_last_to1 :: "'a tensor \<Rightarrow> 'a tensor" where
  "slice_last_to1 T = \<lparr>shape = butlast (shape T) @ [min 1 (last (shape T))], elt = elt T\<rparr>"

text \<open>Broadcasting of two tensors of the same rank: a dimension of size 1 is stretched to
  the other operand's size, and is then always read at index 0. (Torch raises when two
  sizes differ and neither is 1; the generators below only combine tensors that passed the
  shape check, or a tensor with its own slice, where this cannot happen.)\<close>

definition bshape :: "nat list \<Rightarrow> nat list \<Rightarrow> nat list" where
  "bshape s1 s2 = map2 (\<lambda>a b. if a = 1 then b else a) s1 s2"

definition bidx :: "nat list \<Rightarrow> nat list \<Rightarrow> nat list" where
  "bidx s ix = map2 (\<lambda>n i. if n = 1 then 0 else i) s ix"

definition broadcast2 :: "('a \<Rightarrow> 'b \<Rightarrow> 'c) \<Rightarrow> 'a tensor \<Rightarrow> 'b tensor \<Rightarrow> 'c tensor" where
  "broadcast2 f A B =
     \<lparr>shape = bshape (shape A) (shape B),
      elt = (\<lambda>ix. f (elt A (bidx (shape A) ix)) (elt B (bidx (shape B) ix)))\<rparr>"

text \<open>\<^verbatim>\<open>T.masked_fill(mask, value)\<close>: \<open>value\<close> where the mask holds, \<open>T\<close> elsewhere.\<close>

definition masked_fill :: "'a tensor \<Rightarrow> bool tensor \<Rightarrow> 'a \<Rightarrow> 'a tensor" where
  "masked_fill T M v =
     \<lparr>shape = shape T, elt = (\<lambda>ix. if elt M (bidx (shape M) ix) then v else elt T ix)\<rparr>"

text \<open>\<^verbatim>\<open>rearrange(T, "batch depth tokens -> batch tokens depth")\<close>.\<close>

definition rearrange_bdt_btd :: "'a tensor \<Rightarrow> 'a tensor" where
  "rearrange_bdt_btd T =
     \<lparr>shape = [shape T ! 0, shape T ! 2, shape T ! 1],
      elt = (\<lambda>ix. elt T [ix ! 0, ix ! 2, ix ! 1])\<rparr>"

text \<open>\<^verbatim>\<open>torch.zeros(shape, dtype=...)\<close>.\<close>

definition zeros :: "nat list \<Rightarrow> 'a::zero tensor" where
  "zeros s = \<lparr>shape = s, elt = (\<lambda>ix. 0)\<rparr>"

datatype error = TypeCheckError | IndexOutOfBounds | ScalarOverflow | ValueError | AssertionError

text \<open>All indices \<open>[i, k, j]\<close> inside a three-dimensional shape satisfy \<open>P\<close>.\<close>

definition all_idx3 :: "nat list \<Rightarrow> (nat list \<Rightarrow> bool) \<Rightarrow> bool" where
  "all_idx3 s P =
     list_all (\<lambda>i. list_all (\<lambda>k. list_all (\<lambda>j. P [i, k, j]) [0..<s ! 2]) [0..<s ! 1]) [0..<s ! 0]"

text \<open>\<^verbatim>\<open>self.scatter_add(dim=2, index=index, src=src)\<close> on three-dimensional tensors:
  for every index \<open>[i, k, j]\<close> of \<open>index\<close>, in order, \<open>src[i, k, j]\<close> is added to
  \<open>self[i, k, index[i, k, j]]\<close>. The additions are those of the element type, so on
  \<open>u8\<close> they wrap. An index outside the last dimension of \<open>self\<close> is an error.\<close>

definition scatter_add_dim2 :: "'a::plus tensor \<Rightarrow> int tensor \<Rightarrow> 'a tensor \<Rightarrow> error + 'a tensor" where
  "scatter_add_dim2 self index src =
     (if \<not> all_idx3 (shape index) (\<lambda>ix. 0 \<le> elt index ix \<and> elt index ix < int (shape self ! 2))
      then Inl IndexOutOfBounds
      else Inr \<lparr>shape = shape self,
                elt = (\<lambda>ix. fold (\<lambda>j acc. if elt index [ix ! 0, ix ! 1, j] = int (ix ! 2)
                                          then acc + elt src [ix ! 0, ix ! 1, j] else acc)
                                 [0..<shape index ! 2] (elt self ix))\<rparr>)"

text \<open>\<^verbatim>\<open>T.sum(dim=-1, keepdim=True)\<close> on a \<open>u8\<close> tensor. Torch sums integer tensors in
  64-bit integers and returns a 64-bit tensor, so the sum of the (at most 255-valued)
  entries is the mathematical one.\<close>

definition sum_last_keepdim :: "u8 tensor \<Rightarrow> int tensor" where
  "sum_last_keepdim T =
     \<lparr>shape = butlast (shape T) @ [1],
      elt = (\<lambda>ix. sum_list (map (\<lambda>c. uint (elt T (butlast ix @ [c]))) [0..<last (shape T)]))\<rparr>"

text \<open>\<^verbatim>\<open>T.clamp_min_(m)\<close>.\<close>

definition clamp_min :: "int tensor \<Rightarrow> int \<Rightarrow> int tensor" where
  "clamp_min T m = map_tensor (max m) T"

text \<open>\<^verbatim>\<open>A / D\<close> of a \<open>u8\<close> tensor by a 64-bit integer tensor: torch's true division,
  broadcast, with a floating-point result. No divisor of this module is 0.\<close>

definition true_divide :: "u8 tensor \<Rightarrow> int tensor \<Rightarrow> real tensor" where
  "true_divide A D = broadcast2 (\<lambda>a d. real (unat a) / real_of_int d) A D"

text \<open>The \<^verbatim>\<open>@typecheck\<close> decorator: every argument annotated
  \<^verbatim>\<open>[Tensor, "batch depth tokens"]\<close> has three dimensions, and the arguments of one
  call agree on each named dimension; otherwise the call raises.\<close>

definition typecheck1 :: "'a tensor \<Rightarrow> bool" where
  "typecheck1 A = (length (shape A) = 3)"

definition typecheck2 :: "'a tensor \<Rightarrow> 'b tensor \<Rightarrow> bool" where
  "typecheck2 A B = (length (shape A) = 3 \<and> shape B = shape A)"

section \<open>Generator metadata\<close>

datatype FeatureType = MSA | TOKEN

datatype EncodingType = ONE_HOT | IDENTITY

text \<open>The keyword arguments that a generator's \<^verbatim>\<open>__init__\<close> hands to the constructor of
  the base class \<^verbatim>\<open>FeatureGenerator\<close>; \<open>mult\<close> is \<open>None\<close> where the call leaves it to
  the base class's default.\<close>

record FeatureGenerator =
  ty :: FeatureType
  encoding_ty :: EncodingType
  can_mask :: bool
  num_classes :: int
  mult :: "int option"

definition MSAFeatureGenerator_init :: "'r list \<Rightarrow> FeatureGenerator" where
  "MSAFeatureGenerator_init residue_types_with_nucleotides_order =
     (let num_res_ty = int (length residue_types_with_nucleotides_order)
      in \<lparr>ty = MSA, encoding_ty = ONE_HOT, can_mask = False, num_classes = num_res_ty,
          mult = Some 1\<rparr>)"

definition MSAHasDeletionGenerator_init :: FeatureGenerator where
  "MSAHasDeletionGenerator_init =
     \<lparr>ty = MSA, encoding_ty = IDENTITY, can_mask = False, num_classes = 1, mult = Some 1\<rparr>"

definition MSADeletionValueGenerator_init :: FeatureGenerator where
  "MSADeletionValueGenerator_init =
     \<lparr>ty = MSA, encoding_ty = IDENTITY, can_mask = False, num_classes = 1, mult = Some 1\<rparr>"

definition MSAProfileGenerator_init :: "'r list \<Rightarrow> FeatureGenerator" where
  "MSAProfileGenerator_init residue_types_with_nucleotides_order =
     (let num_res_ty = int (length residue_types_with_nucleotides_order)
      in \<lparr>ty = TOKEN, encoding_ty = IDENTITY, can_mask = False, num_classes = num_res_ty,
          mult = None\<rparr>)"

definition MSADeletionMeanGenerator_init :: FeatureGenerator where
  "MSADeletionMeanGenerator_init =
     \<lparr>ty = TOKEN, encoding_ty = IDENTITY, can_mask = False, num_classes = 1, mult = Some 1\<rparr>"

definition IsPairedMSAGenerator_init :: FeatureGenerator where
  "IsPairedMSAGenerator_init =
     \<lparr>ty = MSA, encoding_ty = IDENTITY, can_mask = False, num_classes = 1, mult = Some 1\<rparr>"

text \<open>Python's \<^verbatim>\<open>max\<close> of a non-empty sequence.\<close>

definition py_max :: "int list \<Rightarrow> int" where
  "py_max vs = fold max (tl vs) (hd vs)"

text \<open>\<^verbatim>\<open>MSADataSourceGenerator.__init__\<close>. Its first argument stands for
  \<^verbatim>\<open>msa_dataset_source_to_int.values()\<close>, the codes of the known sources: the dictionary
  is imported from another module. The second, \<open>n\<close>, is the argument \<^verbatim>\<open>num_classes\<close>
  (5 when the caller gives none). \<^verbatim>\<open>max\<close> of no values raises \<^verbatim>\<open>ValueError\<close>, and
  a failed \<^verbatim>\<open>assert\<close> raises \<^verbatim>\<open>AssertionError\<close> (assertions are on, as they are
  unless the interpreter is told to drop them).\<close>

definition MSADataSourceGenerator_init :: "int list \<Rightarrow> int \<Rightarrow> error + FeatureGenerator" where
  "MSADataSourceGenerator_init msa_dataset_source_to_int_values n =
     (if msa_dataset_source_to_int_values = [] then Inl ValueError
      else if \<not> (n = py_max msa_dataset_source_to_int_values + 1) then Inl AssertionError
      else Inr \<lparr>ty = MSA, encoding_ty = ONE_HOT, can_mask = True, num_classes = n,
                mult = Some 1\<rparr>)"

section \<open>The generators\<close>

text \<open>
  Every \<^verbatim>\<open>_generate\<close> ends in \<^verbatim>\<open>self.make_feature(data=...)\<close>, a method of the base
  class, which is not part of this module: it is the parameter \<open>make_feature\<close>. The
  theorems below read the tensor that is handed to it, by taking the identity for it.
\<close>

definition MSAFeatureGenerator_generate :: "(u8 tensor \<Rightarrow> 'f) \<Rightarrow> u8 tensor \<Rightarrow> error + 'f" where
  "MSAFeatureGenerator_generate make_feature msa_tokens =
     (if \<not> typecheck1 msa_tokens then Inl TypeCheckError
      else Inr (make_feature (unsqueeze_last msa_tokens)))"

definition MSAHasDeletionGenerator_generate :: "(bool tensor \<Rightarrow> 'f) \<Rightarrow> u8 tensor \<Rightarrow> error + 'f" where
  "MSAHasDeletionGenerator_generate make_feature msa_deletion_matrix =
     (if \<not> typecheck1 msa_deletion_matrix then Inl TypeCheckError
      else let has_deletion = map_tensor (\<lambda>d. 0 < d) msa_deletion_matrix
           in Inr (make_feature (unsqueeze_last has_deletion)))"

text \<open>The scaling of the docstring, \<open>s(d) = 2 / pi * arctan(d / 3)\<close>.\<close>

definition scale :: "real \<Rightarrow> real" where
  "scale d = 2 / pi * arctan (d / 3)"

definition MSADeletionValueGenerator_generate :: "(real tensor \<Rightarrow> 'f) \<Rightarrow> u8 tensor \<Rightarrow> error + 'f" where
  "MSADeletionValueGenerator_generate make_feature msa_deletion_matrix =
     (if \<not> typecheck1 msa_deletion_matrix then Inl TypeCheckError
      else let d_scaled = map_tensor (\<lambda>d. 2 / pi * arctan (real (unat d) / 3)) msa_deletion_matrix
           in Inr (make_feature (unsqueeze_last d_scaled)))"

text \<open>\<^verbatim>\<open>MSAProfileGenerator._generate\<close>; \<open>num_res_ty\<close> is \<^verbatim>\<open>self.num_res_ty\<close>, the
  length of the residue vocabulary, which is imported from another module. The two
  locals \<^verbatim>\<open>unnormalized_profile\<close> and \<^verbatim>\<open>denom\<close> of the method are definitions of
  their own, so that they can be read.\<close>

definition MSAProfileGenerator_unnormalized_profile ::
  "nat \<Rightarrow> u8 tensor \<Rightarrow> bool tensor \<Rightarrow> error + u8 tensor" where
  "MSAProfileGenerator_unnormalized_profile num_res_ty main_msa_tokens main_msa_mask =
     (let batch = shape main_msa_tokens ! 0; tokens = shape main_msa_tokens ! 2
      in scatter_add_dim2 (zeros [batch, tokens, num_res_ty])
           (rearrange_bdt_btd (map_tensor uint main_msa_tokens))
           (rearrange_bdt_btd (map_tensor (\<lambda>m. if m then 1 else 0) main_msa_mask)))"

definition MSAProfileGenerator_denom :: "u8 tensor \<Rightarrow> int tensor" where
  "MSAProfileGenerator_denom unnormalized_profile =
     clamp_min (sum_last_keepdim unnormalized_profile) 1"

definition MSAProfileGenerator_generate ::
  "(real tensor \<Rightarrow> 'f) \<Rightarrow> nat \<Rightarrow> u8 tensor \<Rightarrow> bool tensor \<Rightarrow> error + 'f" where
  "MSAProfileGenerator_generate make_feature num_res_ty main_msa_tokens main_msa_mask =
     (if \<not> typecheck2 main_msa_tokens main_msa_mask then Inl TypeCheckError
      else case MSAProfileGenerator_unnormalized_profile num_res_ty main_msa_tokens main_msa_mask
           of Inl e \<Rightarrow> Inl e
            | Inr unnormalized_profile \<Rightarrow>
                let denom = MSAProfileGenerator_denom unnormalized_profile;
                    profile = true_divide unnormalized_profile denom
                in Inr (make_feature profile))"

text \<open>Modelled from the spec: \<^verbatim>\<open>masked_mean\<close> of \<^verbatim>\<open>chai_lab.utils.tensor_utils\<close>, which
  is not among the sources. For \<^verbatim>\<open>dim=1\<close> of three-dimensional arguments it is, at each
  batch entry and token position, the sum over the rows of mask times value divided by
  the sum of the mask, and zero where no row is valid.\<close>

definition masked_mean_dim1 :: "bool tensor \<Rightarrow> real tensor \<Rightarrow> real tensor" where
  "masked_mean_dim1 msk val =
     \<lparr>shape = [shape val ! 0, shape val ! 2],
      elt = (\<lambda>ix. let rows = [0..<shape val ! 1];
                      num = sum_list (map (\<lambda>j. (if elt msk [ix ! 0, j, ix ! 1] then 1 else 0)
                                                * elt val [ix ! 0, j, ix ! 1]) rows);
                      den = sum_list (map (\<lambda>j. if elt msk [ix ! 0, j, ix ! 1] then 1 else (0::nat)) rows)
                  in if den = 0 then 0 else num / real den)\<rparr>"

definition MSADeletionMeanGenerator_generate ::
  "(real tensor \<Rightarrow> 'f) \<Rightarrow> bool tensor \<Rightarrow> u8 tensor \<Rightarrow> error + 'f" where
  "MSADeletionMeanGenerator_generate make_feature main_msa_mask main_msa_deletion_matrix =
     (if \<not> typecheck2 main_msa_mask main_msa_deletion_matrix then Inl TypeCheckError
      else let mean_deletion_matrix =
                 masked_mean_dim1 main_msa_mask
                   (map_tensor (\<lambda>d. real (unat d)) main_msa_deletion_matrix)
           in Inr (make_feature (unsqueeze_last mean_deletion_matrix)))"

text \<open>\<^verbatim>\<open>IsPairedMSAGenerator._generate\<close>; \<open>UNKNOWN_SPECIES\<close> is the sentinel imported
  from the species module.\<close>

definition IsPairedMSAGenerator_generate ::
  "(u8 tensor \<Rightarrow> 'f) \<Rightarrow> int \<Rightarrow> bool tensor \<Rightarrow> int tensor \<Rightarrow> error + 'f" where
  "IsPairedMSAGenerator_generate make_feature UNKNOWN_SPECIES msa_mask msa_species =
     (if \<not> typecheck2 msa_mask msa_species then Inl TypeCheckError
      else let first_species = slice_last_to1 msa_species;
               is_paired = map_tensor (\<lambda>b. if b then 1 else 0)
                             (broadcast2 (=) msa_species first_species);
               mask' = broadcast2 (\<and>) msa_mask (map_tensor (\<lambda>s. s \<noteq> UNKNOWN_SPECIES) msa_species);
               is_paired = masked_fill is_paired (map_tensor Not mask') 0
           in Inr (make_feature (unsqueeze_last is_paired)))"

text \<open>\<^verbatim>\<open>MSADataSourceGenerator._generate\<close>; \<open>self_num_classes\<close> is
  \<^verbatim>\<open>self.num_classes\<close>. The fill value of \<^verbatim>\<open>masked_fill\<close> is converted to the dtype of
  the tensor: torch refuses a scalar beyond the largest eight-bit value, and lets a
  negative one wrap as long as its magnitude fits. The properties below are about class
  counts from 0 to 255, which are stored as they are.\<close>

definition MSADataSourceGenerator_generate ::
  "(u8 tensor \<Rightarrow> 'f) \<Rightarrow> int \<Rightarrow> bool tensor \<Rightarrow> u8 tensor \<Rightarrow> error + 'f" where
  "MSADataSourceGenerator_generate make_feature self_num_classes msa_mask msa_sequence_source =
     (if \<not> typecheck2 msa_mask msa_sequence_source then Inl TypeCheckError
      else if self_num_classes < - 255 \<or> 255 < self_num_classes then Inl ScalarOverflow
      else let msa_sequence_source =
                 masked_fill msa_sequence_source (map_tensor Not msa_mask)
                   (word_of_int self_num_classes)
           in Inr (make_feature (unsqueeze_last msa_sequence_source)))"

section \<open>Reading a result\<close>

text \<open>The entry at an index, and the shape, of the tensor a call returns; the error when
  the call raises.\<close>

definition entry :: "error + 'a tensor \<Rightarrow> nat list \<Rightarrow> error + 'a" where
  "entry r ix = (case r of Inl e \<Rightarrow> Inl e | Inr T \<Rightarrow> Inr (elt T ix))"

definition shape_of :: "error + 'a tensor \<Rightarrow> error + nat list" where
  "shape_of r = (case r of Inl e \<Rightarrow> Inl e | Inr T \<Rightarrow> Inr (shape T))"

text \<open>The rows of the alignment that are valid at token position \<open>k\<close> of batch entry
  \<open>i\<close>, and those among them that carry residue class \<open>c\<close> there: the true
  mask-weighted counts are the lengths of these lists.\<close>

definition valid_rows :: "bool tensor \<Rightarrow> nat \<Rightarrow> nat \<Rightarrow> nat list" where
  "valid_rows M i k = filter (\<lambda>j. elt M [i, j, k]) [0..<shape M ! 1]"

definition class_rows :: "u8 tensor \<Rightarrow> bool tensor \<Rightarrow> nat \<Rightarrow> nat \<Rightarrow> nat \<Rightarrow> nat list" where
  "class_rows T M i k c = filter (\<lambda>j. elt M [i, j, k] \<and> unat (elt T [i, j, k]) = c) [0..<shape M ! 1]"

text \<open>Every token of the grid is a class of the vocabulary.\<close>

definition in_vocab :: "nat \<Rightarrow> u8 tensor \<Rightarrow> bool" where
  "in_vocab n T =
     list_all (\<lambda>i. list_all (\<lambda>j. list_all (\<lambda>k. unat (elt T [i, j, k]) < n) [0..<shape T ! 2])
                 [0..<shape T ! 1]) [0..<shape T ! 0]"

text \<open>Three inputs of the profile generator, each one alignment of 256 rows and one
  token position: every row valid; the rows 0 to 127 of class 0 and the rows 128 to 255 of
  class 1; every row of class 0.\<close>

definition rows256_all_valid :: "bool tensor" where
  "rows256_all_valid = \<lparr>shape = [1, 256, 1], elt = (\<lambda>ix. True)\<rparr>"

definition rows256_two_classes :: "u8 tensor" where
  "rows256_two_classes = \<lparr>shape = [1, 256, 1], elt = (\<lambda>ix. if ix ! 1 < 128 then 0 else 1)\<rparr>"

definition rows256_one_class :: "u8 tensor" where
  "rows256_one_class = \<lparr>shape = [1, 256, 1], elt = (\<lambda>ix. 0)\<rparr>"

text \<open>The entries of a four-dimensional result whose last dimension has size 1, as nested
  lists over the three leading dimensions.\<close>

definition squeezed_lists :: "error + 'a tensor \<Rightarrow> error + 'a list list list" where
  "squeezed_lists r =
     (case r of Inl e \<Rightarrow> Inl e
      | Inr T \<Rightarrow> Inr (map (\<lambda>i. map (\<lambda>j. map (\<lambda>k. elt T [i, j, k, 0]) [0..<shape T ! 2])
                                [0..<shape T ! 1]) [0..<shape T ! 0]))"

section \<open>Properties\<close>

subsection \<open>Shapes and broadcast indices\<close>

lemma length3E:
  assumes "length s = 3"
  obtains a b c where "s = [a, b, c]"
  using assms by (auto simp: length_Suc_conv numeral_3_eq_3)

lemma bidx_Nil [simp]: "bidx [] ix = []"
  by (simp add: bidx_def)

lemma bidx_Cons_lt [simp]: "i < n \<Longrightarrow> bidx (n # s) (i # ix) = i # bidx s ix"
  by (auto simp: bidx_def)

lemma bidx_Cons_one [simp]: "bidx (Suc 0 # s) (i # ix) = 0 # bidx s ix"
  by (simp add: bidx_def)

subsection \<open>Paired-MSA feature\<close>

text \<open>
  C1, as the code has it. \<^verbatim>\<open>first_species = msa_species[..., :1]\<close> slices the last
  (token) dimension, so the reference of the comparison is the species of the same row at
  token position 0, not the species of row 0 at the same position ("relative species
  encoding within each MSA sequence"). For inputs that pass the shape check and every
  batch entry \<open>i\<close>, row \<open>r\<close> and token position \<open>k\<close>, the feature is 1 exactly when
  the species of row \<open>r\<close> at \<open>k\<close> equals the species of row \<open>r\<close> at position 0, the
  row is valid at \<open>k\<close>, and its species at \<open>k\<close> is not the UNKNOWN sentinel; it is 0
  otherwise.
\<close>

theorem is_paired_entry:
  assumes "typecheck2 msa_mask msa_species"
    and "i < shape msa_species ! 0" and "r < shape msa_species ! 1" and "k < shape msa_species ! 2"
  shows "entry (IsPairedMSAGenerator_generate (\<lambda>d. d) UNKNOWN_SPECIES msa_mask msa_species) [i, r, k, 0] =
     Inr (if elt msa_species [i, r, k] = elt msa_species [i, r, 0] \<and> elt msa_mask [i, r, k]
             \<and> elt msa_species [i, r, k] \<noteq> UNKNOWN_SPECIES then 1 else 0)"
proof -
  from assms(1) have len: "length (shape msa_mask) = 3" and eq: "shape msa_species = shape msa_mask"
    by (simp_all add: typecheck2_def)
  from len obtain b d t where s: "shape msa_mask = [b, d, t]" by (rule length3E)
  from assms(2-4) have lt: "i < b" "r < d" "k < t" by (simp_all add: eq s)
  then have m: "min (Suc 0) t = Suc 0" by simp
  show ?thesis
    using assms(1) lt
    by (simp add: IsPairedMSAGenerator_generate_def entry_def Let_def unsqueeze_last_def
        masked_fill_def map_tensor_def broadcast2_def slice_last_to1_def bshape_def eq s m)
qed

text \<open>The theorem at a batch of one alignment with two rows and two tokens: row 0 at
  position 1 has species 2, its position 0 has species 1, so it is not paired.\<close>

theorem is_paired_entry_witness:
  "typecheck2 (tensor3 1 2 2 [[[True, True], [True, False]]]) (tensor3 1 2 2 [[[1, 2], [2, 2::int]]])
   \<and> entry (IsPairedMSAGenerator_generate (\<lambda>d. d) 0
          (tensor3 1 2 2 [[[True, True], [True, False]]])
          (tensor3 1 2 2 [[[1, 2], [2, 2]]])) [0, 0, 1, 0] = Inr 0"
  using is_paired_entry [of "tensor3 1 2 2 [[[True, True], [True, False]]]"
      "tensor3 1 2 2 [[[1, 2], [2, 2]]]" 0 0 1 0]
  by (simp add: tensor3_def typecheck2_def)

text \<open>Pairing relative to row 0 fails on the species grid \<open>[[1, 2], [2, 2]]\<close> with every
  position valid and UNKNOWN = 0: row 1 at position 0 has species 2 and row 0 has species 1
  there, yet the feature is 1, because row 1 agrees with its own position 0.\<close>

theorem is_paired_row0_counterexample:
  "entry (IsPairedMSAGenerator_generate (\<lambda>d. d) 0
          (tensor3 1 2 2 [[[True, True], [True, True]]])
          (tensor3 1 2 2 [[[1, 2], [2, 2]]])) [0, 1, 0, 0] = Inr 1
   \<and> elt (tensor3 1 2 2 [[[1, 2], [2, 2::int]]]) [0, 1, 0]
       \<noteq> elt (tensor3 1 2 2 [[[1, 2], [2, 2::int]]]) [0, 0, 0]"
  by (simp add: IsPairedMSAGenerator_generate_def entry_def Let_def unsqueeze_last_def
        masked_fill_def map_tensor_def broadcast2_def slice_last_to1_def bshape_def tensor3_def typecheck2_def)

subsection \<open>Data-source feature\<close>

text \<open>
  C2, as the code has it. \<^verbatim>\<open>masked_fill(~msa_mask, self.num_classes)\<close> writes
  \<open>num_classes\<close> itself, the index one past the last class, not \<open>num_classes - 1\<close>.
  For inputs that pass the shape check and a class count that fits eight bits, every
  masked-out position of the feature holds exactly \<open>num_classes\<close>, whatever its source
  code was, and every valid position keeps its source code; the entries are read under the
  trailing dimension of size 1.
\<close>

theorem data_source_entry:
  assumes "typecheck2 msa_mask msa_sequence_source"
    and "0 \<le> n" and "n \<le> 255"
    and "i < shape msa_mask ! 0" and "r < shape msa_mask ! 1" and "k < shape msa_mask ! 2"
  shows "entry (MSADataSourceGenerator_generate (\<lambda>d. d) n msa_mask msa_sequence_source) [i, r, k, 0] =
           Inr (if elt msa_mask [i, r, k] then elt msa_sequence_source [i, r, k] else word_of_int n)
         \<and> uint (word_of_int n :: u8) = n"
proof -
  from assms(1) have len: "length (shape msa_mask) = 3" and eq: "shape msa_sequence_source = shape msa_mask"
    by (simp_all add: typecheck2_def)
  from len obtain b d t where s: "shape msa_mask = [b, d, t]" by (rule length3E)
  from assms(4-6) have lt: "i < b" "r < d" "k < t" by (simp_all add: s)
  have u: "uint (word_of_int n :: u8) = n"
    using assms(2,3) by (simp add: uint_word_of_int take_bit_int_eq_self)
  have "entry (MSADataSourceGenerator_generate (\<lambda>d. d) n msa_mask msa_sequence_source) [i, r, k, 0] =
           Inr (if elt msa_mask [i, r, k] then elt msa_sequence_source [i, r, k] else word_of_int n)"
    using assms(1-3) lt
    by (simp add: MSADataSourceGenerator_generate_def entry_def Let_def unsqueeze_last_def
        masked_fill_def map_tensor_def eq s)
  with u show ?thesis by simp
qed

theorem data_source_entry_witness:
  "typecheck2 (tensor3 1 1 2 [[[True, False]]]) (tensor3 1 1 2 [[[3, 1 :: u8]]])
   \<and> entry (MSADataSourceGenerator_generate (\<lambda>d. d) 5
          (tensor3 1 1 2 [[[True, False]]]) (tensor3 1 1 2 [[[3, 1]]])) [0, 0, 1, 0] = Inr 5
   \<and> entry (MSADataSourceGenerator_generate (\<lambda>d. d) 5
          (tensor3 1 1 2 [[[True, False]]]) (tensor3 1 1 2 [[[3, 1]]])) [0, 0, 0, 0] = Inr 3"
  using data_source_entry [of "tensor3 1 1 2 [[[True, False]]]" "tensor3 1 1 2 [[[3, 1]]]" 5 0 0 1]
    data_source_entry [of "tensor3 1 1 2 [[[True, False]]]" "tensor3 1 1 2 [[[3, 1]]]" 5 0 0 0]
  by (simp add: tensor3_def typecheck2_def)

text \<open>With the default \<open>num_classes = 5\<close>, a masked-out position with source code 0
  comes out as 5, which is not \<open>num_classes - 1 = 4\<close>.\<close>

theorem data_source_sentinel_counterexample:
  "entry (MSADataSourceGenerator_generate (\<lambda>d. d) 5
          (tensor3 1 1 1 [[[False]]]) (tensor3 1 1 1 [[[0]]])) [0, 0, 0, 0] = Inr 5
   \<and> (5 :: u8) \<noteq> word_of_int (5 - 1)"
  by (simp add: MSADataSourceGenerator_generate_def entry_def Let_def unsqueeze_last_def
        masked_fill_def map_tensor_def tensor3_def typecheck2_def)

subsection \<open>Construction\<close>

lemma py_max_eq_Max:
  assumes "vs \<noteq> []"
  shows "py_max vs = Max (set vs)"
proof (cases vs)
  case Nil
  with assms show ?thesis by simp
next
  case (Cons a list)
  then show ?thesis using Max.set_eq_fold [of a list] by (simp add: py_max_def)
qed

text \<open>
  C8. Constructing the data-source generator succeeds exactly when the declared
  \<open>num_classes\<close> is one more than the largest known source code, and the generator then
  carries the declared \<open>num_classes\<close> unchanged; with any other \<open>num_classes\<close> (and
  when no source code is known at all) the construction raises.
\<close>

theorem data_source_init_checks_num_classes:
  "(vs \<noteq> [] \<and> n = Max (set vs) + 1 \<longrightarrow>
      MSADataSourceGenerator_init vs n =
        Inr \<lparr>ty = MSA, encoding_ty = ONE_HOT, can_mask = True, num_classes = n, mult = Some 1\<rparr>)
   \<and> (vs = [] \<or> n \<noteq> Max (set vs) + 1 \<longrightarrow> isl (MSADataSourceGenerator_init vs n))"
  by (auto simp: MSADataSourceGenerator_init_def py_max_eq_Max)

theorem data_source_init_checks_num_classes_witness:
  "MSADataSourceGenerator_init [0, 1, 2, 3, 4] 5 =
        Inr \<lparr>ty = MSA, encoding_ty = ONE_HOT, can_mask = True, num_classes = 5, mult = Some 1\<rparr>
   \<and> isl (MSADataSourceGenerator_init [0, 1, 2, 3, 4] 4)
   \<and> isl (MSADataSourceGenerator_init [] 5)"
  using data_source_init_checks_num_classes [of "[0, 1, 2, 3, 4]" 5]
    data_source_init_checks_num_classes [of "[0, 1, 2, 3, 4]" 4]
    data_source_init_checks_num_classes [of "[]" 5]
  by simp

text \<open>
  C10. Of the seven generators of the module, the data-source generator is the only one
  constructed with \<open>can_mask = True\<close> (whenever its construction succeeds); the six
  others are constructed with \<open>can_mask = False\<close>.
\<close>

theorem only_data_source_can_mask:
  "\<not> can_mask (MSAFeatureGenerator_init rs)
   \<and> \<not> can_mask MSAHasDeletionGenerator_init
   \<and> \<not> can_mask MSADeletionValueGenerator_init
   \<and> \<not> can_mask (MSAProfileGenerator_init rs)
   \<and> \<not> can_mask MSADeletionMeanGenerator_init
   \<and> \<not> can_mask IsPairedMSAGenerator_init
   \<and> (\<forall>g. MSADataSourceGenerator_init vs n = Inr g \<longrightarrow> can_mask g)"
  by (auto simp: MSAFeatureGenerator_init_def MSAHasDeletionGenerator_init_def
      MSADeletionValueGenerator_init_def MSAProfileGenerator_init_def
      MSADeletionMeanGenerator_init_def IsPairedMSAGenerator_init_def
      MSADataSourceGenerator_init_def Let_def split: if_splits)

theorem only_data_source_can_mask_witness:
  "MSADataSourceGenerator_init [0, 1, 2, 3, 4] 5 =
      Inr \<lparr>ty = MSA, encoding_ty = ONE_HOT, can_mask = True, num_classes = 5, mult = Some 1\<rparr>
   \<and> can_mask \<lparr>ty = MSA, encoding_ty = ONE_HOT, can_mask = True, num_classes = 5, mult = Some 1\<rparr>
   \<and> \<not> can_mask (MSAProfileGenerator_init ''ACGU'')"
  using only_data_source_can_mask [of "''ACGU''" "[0, 1, 2, 3, 4]" 5]
  by (simp add: MSADataSourceGenerator_init_def py_max_def)

subsection \<open>Profile\<close>

lemma all_idx3_iff:
  "all_idx3 [a, b, c] P \<longleftrightarrow> (\<forall>i<a. \<forall>k<b. \<forall>j<c. P [i, k, j])"
  by (auto simp: all_idx3_def list_all_iff)

lemma in_vocab_iff:
  "shape T = [b, d, t] \<Longrightarrow> in_vocab n T \<longleftrightarrow> (\<forall>i<b. \<forall>j<d. \<forall>k<t. unat (elt T [i, j, k]) < n)"
  by (auto simp: in_vocab_def list_all_iff)

lemma uint_less_int_iff: "uint (w :: u8) < int n \<longleftrightarrow> unat w < n"
  by (metis of_nat_less_iff uint_nat)

lemma uint_eq_int_iff: "uint (w :: u8) = int n \<longleftrightarrow> unat w = n"
  by (metis of_nat_eq_iff uint_nat)

lemma scatter_ok:
  assumes "typecheck2 T M" and "in_vocab n T"
  shows "\<exists>U. MSAProfileGenerator_unnormalized_profile n T M = Inr U \<and> shape U = [shape T ! 0, shape T ! 2, n]
     \<and> (\<forall>i k c. elt U [i, k, c] = 
          fold (\<lambda>j acc. if unat (elt T [i, j, k]) = c
                                          then acc + (if elt M [i, j, k] then 1 else 0) else acc)
                                 [0..<shape T ! 1] 0)"
proof -
  from assms(1) have len: "length (shape T) = 3" and eq: "shape M = shape T"
    by (simp_all add: typecheck2_def)
  from len obtain b d t where s: "shape T = [b, d, t]" by (rule length3E)
  have iv: "\<forall>i<b. \<forall>j<d. \<forall>k<t. unat (elt T [i, j, k]) < n"
    using assms(2) in_vocab_iff [OF s] by simp
  have a: "all_idx3 [b, t, d] (\<lambda>ix. 0 \<le> uint (elt T [ix ! 0, ix ! 2, ix ! 1]) \<and> uint (elt T [ix ! 0, ix ! 2, ix ! 1]) < int n)"
    unfolding all_idx3_iff using iv by (simp add: uint_less_int_iff)
  show ?thesis
    using a
    by (simp add: MSAProfileGenerator_unnormalized_profile_def scatter_add_dim2_def Let_def
        rearrange_bdt_btd_def map_tensor_def zeros_def s eq uint_eq_int_iff cong: if_cong)
qed

lemma fold_cond_add:
  "fold (\<lambda>j acc. if P j then acc + f j else acc) xs (a::'a::comm_monoid_add)
     = a + sum_list (map f (filter P xs))"
  by (induction xs arbitrary: a) (simp_all add: ac_simps)

lemma sum_list_indicator:
  "sum_list (map (\<lambda>j. if Q j then 1 else 0) xs) = (of_nat (length (filter Q xs)) :: 'a::semiring_1)"
  by (induction xs) simp_all

lemma unnormalized_entry:
  assumes "typecheck2 T M" and "in_vocab n T"
  shows "\<exists>U. MSAProfileGenerator_unnormalized_profile n T M = Inr U
     \<and> shape U = [shape T ! 0, shape T ! 2, n]
     \<and> (\<forall>i k c. elt U [i, k, c] = of_nat (length (class_rows T M i k c)))"
proof -
  from assms(1) have eq: "shape M = shape T" by (simp add: typecheck2_def)
  from scatter_ok [OF assms] obtain U where
    U: "MSAProfileGenerator_unnormalized_profile n T M = Inr U"
       "shape U = [shape T ! 0, shape T ! 2, n]"
       "\<And>i k c. elt U [i, k, c] =
          fold (\<lambda>j acc. if unat (elt T [i, j, k]) = c
                         then acc + (if elt M [i, j, k] then 1 else 0) else acc)
               [0..<shape T ! 1] 0"
    by blast
  have "elt U [i, k, c] = of_nat (length (class_rows T M i k c))" for i k c
    by (simp add: U(3) fold_cond_add sum_list_indicator class_rows_def eq conj_commute)
  with U(1,2) show ?thesis by blast
qed

lemma sum_list_delta:
  "sum_list (map (\<lambda>c. if a = c then 1 else 0) [0..<n]) = (if a < n then 1 else (0::nat))"
  by (induction n) auto

lemma class_rows_partition:
  assumes "\<And>j. j \<in> set xs \<Longrightarrow> g j < n"
  shows "sum_list (map (\<lambda>c. length (filter (\<lambda>j. P j \<and> g j = c) xs)) [0..<n]) = length (filter P xs)"
  using assms
proof (induction xs)
  case Nil
  then show ?case by simp
next
  case (Cons x xs)
  have "sum_list (map (\<lambda>c. length (filter (\<lambda>j. P j \<and> g j = c) (x # xs))) [0..<n])
      = sum_list (map (\<lambda>c. (if P x \<and> g x = c then 1 else 0) + length (filter (\<lambda>j. P j \<and> g j = c) xs)) [0..<n])"
    by (rule arg_cong [where f = sum_list]) (rule map_cong, simp_all)
  also have "\<dots> = sum_list (map (\<lambda>c. if P x \<and> g x = c then 1 else 0) [0..<n])
                 + sum_list (map (\<lambda>c. length (filter (\<lambda>j. P j \<and> g j = c) xs)) [0..<n])"
    by (simp add: sum_list_addf)
  also have "sum_list (map (\<lambda>c. if P x \<and> g x = c then 1 else 0) [0..<n]) = (if P x then 1 else (0::nat))"
  proof (cases "P x")
    case True
    then show ?thesis using sum_list_delta [of "g x" n] Cons.prems [of x] by simp
  next
    case False
    then show ?thesis by simp
  qed
  also have "sum_list (map (\<lambda>c. length (filter (\<lambda>j. P j \<and> g j = c) xs)) [0..<n]) = length (filter P xs)"
    using Cons by simp
  finally show ?case by simp
qed

lemma class_rows_sum:
  assumes "typecheck2 T M" and "in_vocab n T" and "i < shape T ! 0" and "k < shape T ! 2"
  shows "sum_list (map (\<lambda>c. length (class_rows T M i k c)) [0..<n]) = length (valid_rows M i k)"
proof -
  from assms(1) have len: "length (shape T) = 3" and eq: "shape M = shape T"
    by (simp_all add: typecheck2_def)
  from len obtain b d t where s: "shape T = [b, d, t]" by (rule length3E)
  have iv: "\<forall>i<b. \<forall>j<d. \<forall>k<t. unat (elt T [i, j, k]) < n"
    using assms(2) in_vocab_iff [OF s] by simp
  have "unat (elt T [i, j, k]) < n" if "j \<in> set [0..<d]" for j
    using iv assms(3,4) that by (simp add: s)
  from class_rows_partition [of "[0..<d]" "\<lambda>j. unat (elt T [i, j, k])" n "\<lambda>j. elt M [i, j, k]", OF this]
  show ?thesis by (simp add: class_rows_def valid_rows_def eq s)
qed

lemma real_unat_of_nat_u8: "real (unat (of_nat m :: u8)) = real (m mod 256)"
  by (simp only: unat_of_nat) simp

lemma unsigned_of_nat_u8: "(unsigned (of_nat m :: u8) :: real) = real (m mod 256)"
  using real_unat_of_nat_u8 [of m] by simp

lemma real_max_int: "real_of_int (max 1 (int m)) = real (max (Suc 0) m)"
  by (simp add: max_def)

lemma profile_entry_formula:
  assumes "typecheck2 T M" and "in_vocab n T"
    and "i < shape T ! 0" and "k < shape T ! 2" and "c < n"
  shows "entry (MSAProfileGenerator_generate (\<lambda>d. d) n T M) [i, k, c] =
     Inr (real (length (class_rows T M i k c) mod 256)
          / real (max 1 (sum_list (map (\<lambda>c'. length (class_rows T M i k c') mod 256) [0..<n]))))"
proof -
  from assms(1) have len: "length (shape T) = 3" and eq: "shape M = shape T"
    by (simp_all add: typecheck2_def)
  from len obtain b d t where s: "shape T = [b, d, t]" by (rule length3E)
  from assms(3,4) have lt: "i < b" "k < t" by (simp_all add: s)
  from unnormalized_entry [OF assms(1,2)] obtain U where
    U: "MSAProfileGenerator_unnormalized_profile n T M = Inr U"
       "shape U = [b, t, n]"
       "\<And>i k c. elt U [i, k, c] = of_nat (length (class_rows T M i k c))"
    by (auto simp: s)
  have den: "sum_list (map (\<lambda>c'. uint (of_nat (length (class_rows T M i k c')) :: u8)) [0..<n])
      = int (sum_list (map (\<lambda>c'. length (class_rows T M i k c') mod 256) [0..<n]))"
    by (induction n) (simp_all add: uint_nat unat_of_nat del: of_nat_unat)
  show ?thesis
    using assms(1) lt assms(5)
    by (simp add: MSAProfileGenerator_generate_def entry_def Let_def true_divide_def U
        broadcast2_def MSAProfileGenerator_denom_def clamp_min_def map_tensor_def
        sum_last_keepdim_def bshape_def den unsigned_of_nat_u8 real_max_int)
qed

lemma class_rows_le_valid: "length (class_rows T M i k c) \<le> length (valid_rows M i k)"
proof -
  have "length (filter (\<lambda>j. P j \<and> Q j) xs) \<le> length (filter P xs)" for P Q :: "nat \<Rightarrow> bool" and xs
    by (induction xs) auto
  then show ?thesis by (simp add: class_rows_def valid_rows_def)
qed

lemma length_filter_less: "length (filter (\<lambda>j. j < m) [0..<n]) = min m n"
  by (induction n) auto

lemma length_filter_not_less: "length (filter (\<lambda>j. \<not> j < m) [0..<n]) = n - m"
  by (induction n) auto

lemma typecheck_two_classes: "typecheck2 rows256_two_classes rows256_all_valid"
  by (simp add: typecheck2_def rows256_two_classes_def rows256_all_valid_def)

lemma in_vocab_two_classes: "in_vocab 2 rows256_two_classes"
  by (simp add: in_vocab_iff [of _ 1 256 1] rows256_two_classes_def)

lemma two_classes_rows0: "length (class_rows rows256_two_classes rows256_all_valid 0 0 0) = 128"
  using length_filter_less [of 128 256]
  by (simp add: class_rows_def rows256_two_classes_def rows256_all_valid_def if_distrib [of unat] cong: if_cong)

lemma two_classes_rows1: "length (class_rows rows256_two_classes rows256_all_valid 0 0 (Suc 0)) = 128"
  using length_filter_not_less [of 128 256]
  by (simp add: class_rows_def rows256_two_classes_def rows256_all_valid_def if_distrib [of unat] cong: if_cong)

lemma typecheck_one_class: "typecheck2 rows256_one_class rows256_all_valid"
  by (simp add: typecheck2_def rows256_one_class_def rows256_all_valid_def)

lemma in_vocab_one_class: "in_vocab 2 rows256_one_class"
  by (simp add: in_vocab_iff [of _ 1 256 1] rows256_one_class_def)

text \<open>What holds of the profile on every input that passes the checks: each entry is
  non-negative, and the whole distribution is zero at a position without valid rows.\<close>

lemma profile_entry_other_parts:
  assumes "typecheck2 T M" and "in_vocab n T"
    and "i < shape T ! 0" and "k < shape T ! 2" and "c < n"
  shows "\<exists>v. entry (MSAProfileGenerator_generate (\<lambda>d. d) n T M) [i, k, c] = Inr v \<and> 0 \<le> v
           \<and> (valid_rows M i k = [] \<longrightarrow> v = 0)"
proof -
  have "length (class_rows T M i k c) = 0" if "valid_rows M i k = []"
    using class_rows_le_valid [of T M i k c] that by simp
  then show ?thesis
    unfolding profile_entry_formula [OF assms] by auto
qed

text \<open>
  C3 fails on the code once 256 valid rows meet at a token position. The counts are
  accumulated in a buffer of the tokens' dtype (\<^verbatim>\<open>dtype=main_msa_tokens.dtype\<close>, eight
  bits), so the count of a class wraps modulo 256. On one alignment of 256 rows and one
  token position, every row valid and of class 0, with a vocabulary of two classes, the
  count of class 0 is \<open>256 mod 256 = 0\<close>, the denominator is floored to 1, and the
  output distribution is zero in every class: its sum is 0 and not 1, although the
  position has valid rows.
\<close>

theorem profile_sum_zero_at_256_rows:
  "elt rows256_all_valid [0, 0, 0]
   \<and> entry (MSAProfileGenerator_generate (\<lambda>d. d) 2 rows256_one_class rows256_all_valid) [0, 0, 0] = Inr 0
   \<and> entry (MSAProfileGenerator_generate (\<lambda>d. d) 2 rows256_one_class rows256_all_valid) [0, 0, 1] = Inr 0"
proof -
  have u2: "[0..<2] = [0, Suc 0]" by (simp add: upt_conv_Cons)
  have h: "0 < shape rows256_one_class ! 0" "0 < shape rows256_one_class ! 2"
    by (simp_all add: rows256_one_class_def)
  have c0: "length (class_rows rows256_one_class rows256_all_valid 0 0 0) = 256"
    by (simp add: class_rows_def rows256_one_class_def rows256_all_valid_def)
  have c1: "length (class_rows rows256_one_class rows256_all_valid 0 0 (Suc 0)) = 0"
    by (simp add: class_rows_def rows256_one_class_def rows256_all_valid_def)
  have a: "entry (MSAProfileGenerator_generate (\<lambda>d. d) 2 rows256_one_class rows256_all_valid) [0, 0, 0] = Inr 0"
    using profile_entry_formula [OF typecheck_one_class in_vocab_one_class h, of 0]
    by (simp add: u2 c0 c1)
  have b: "entry (MSAProfileGenerator_generate (\<lambda>d. d) 2 rows256_one_class rows256_all_valid) [0, 0, 1] = Inr 0"
    using profile_entry_formula [OF typecheck_one_class in_vocab_one_class h, of 1]
    by (simp add: u2 c0 c1)
  from a b show ?thesis by (simp add: rows256_all_valid_def)
qed

text \<open>
  C4, as the code has it. For inputs that pass the shape check and whose tokens are
  classes of the vocabulary, the entry for class \<open>c\<close> at a token position is the number
  of valid rows of class \<open>c\<close> there modulo 256 (the eight-bit accumulation wraps),
  divided by the sum over the classes of these wrapped counts, floored at 1. The
  denominator itself is not an eight-bit number: \<^verbatim>\<open>sum\<close> adds the wrapped counts in
  64-bit integers. Whenever at most 255 valid rows contribute to the position, the entry
  is the true count of class \<open>c\<close> divided by the number of valid rows floored at 1.
\<close>

theorem profile_entry_wraps:
  assumes "typecheck2 T M" and "in_vocab n T"
    and "i < shape T ! 0" and "k < shape T ! 2" and "c < n"
  shows "entry (MSAProfileGenerator_generate (\<lambda>d. d) n T M) [i, k, c] =
           Inr (real (length (class_rows T M i k c) mod 256)
                / real (max 1 (sum_list (map (\<lambda>c'. length (class_rows T M i k c') mod 256) [0..<n]))))
         \<and> (length (valid_rows M i k) \<le> 255 \<longrightarrow>
              entry (MSAProfileGenerator_generate (\<lambda>d. d) n T M) [i, k, c] =
                Inr (real (length (class_rows T M i k c)) / real (max 1 (length (valid_rows M i k)))))"
proof -
  note f = profile_entry_formula [OF assms]
  have "entry (MSAProfileGenerator_generate (\<lambda>d. d) n T M) [i, k, c] =
          Inr (real (length (class_rows T M i k c)) / real (max 1 (length (valid_rows M i k))))"
    if v: "length (valid_rows M i k) \<le> 255"
  proof -
    have small: "length (class_rows T M i k c') mod 256 = length (class_rows T M i k c')" for c'
      using class_rows_le_valid [of T M i k c'] v by simp
    show ?thesis
      by (simp only: f small class_rows_sum [OF assms(1-4)])
  qed
  with f show ?thesis by blast
qed

theorem profile_entry_wraps_witness:
  "typecheck2 (tensor3 1 3 1 [[[0], [1], [1 :: u8]]]) (tensor3 1 3 1 [[[True], [True], [False]]])
   \<and> in_vocab 2 (tensor3 1 3 1 [[[0], [1], [1]]])
   \<and> length (valid_rows (tensor3 1 3 1 [[[True], [True], [False]]]) 0 0) \<le> 255
   \<and> entry (MSAProfileGenerator_generate (\<lambda>d. d) 2 (tensor3 1 3 1 [[[0], [1], [1]]])
              (tensor3 1 3 1 [[[True], [True], [False]]])) [0, 0, 1] = Inr (1 / 2)"
proof -
  have u3: "[0..<3] = [0, Suc 0, 2]" by (simp add: upt_conv_Cons)
  have u2: "[0..<2] = [0, Suc 0]" by (simp add: upt_conv_Cons)
  have tc: "typecheck2 (tensor3 1 3 1 [[[0], [1], [1 :: u8]]]) (tensor3 1 3 1 [[[True], [True], [False]]])"
    by (simp add: typecheck2_def tensor3_def)
  have iv: "in_vocab 2 (tensor3 1 3 1 [[[0], [1], [1]]])"
    by (simp add: in_vocab_def tensor3_def u3)
  have v: "length (valid_rows (tensor3 1 3 1 [[[True], [True], [False]]]) 0 0) = 2"
    by (simp add: valid_rows_def tensor3_def u3)
  have c: "length (class_rows (tensor3 1 3 1 [[[0], [1], [1]]]) (tensor3 1 3 1 [[[True], [True], [False]]]) 0 0 1) = 1"
    by (simp add: class_rows_def tensor3_def u3)
  have h: "0 < shape (tensor3 1 3 1 [[[0], [1], [1 :: u8]]]) ! 0"
    "0 < shape (tensor3 1 3 1 [[[0], [1], [1 :: u8]]]) ! 2" "(1::nat) < 2"
    by (simp_all add: tensor3_def)
  from profile_entry_wraps [OF tc iv h, THEN conjunct2] v
  have "entry (MSAProfileGenerator_generate (\<lambda>d. d) 2 (tensor3 1 3 1 [[[0], [1], [1]]])
              (tensor3 1 3 1 [[[True], [True], [False]]])) [0, 0, 1] =
         Inr (real (length (class_rows (tensor3 1 3 1 [[[0], [1], [1]]])
                (tensor3 1 3 1 [[[True], [True], [False]]]) 0 0 1))
              / real (max 1 (length (valid_rows (tensor3 1 3 1 [[[True], [True], [False]]]) 0 0))))"
    by simp
  with tc iv v c show ?thesis by simp
qed

text \<open>The denominator does not wrap modulo 256. On one alignment of 256 valid rows and
  one token position, 128 rows of class 0 and 128 of class 1, the local \<^verbatim>\<open>denom\<close> is
  256, which is no eight-bit value (wrapped, it would be 0 and floored to 1), and the output
  is the true distribution, one half for each class, although 256 valid rows contribute.\<close>

theorem profile_denominator_counterexample:
  "entry (map_sum (\<lambda>e. e) MSAProfileGenerator_denom
            (MSAProfileGenerator_unnormalized_profile 2 rows256_two_classes rows256_all_valid))
         [0, 0, 0] = Inr 256
   \<and> length (valid_rows rows256_all_valid 0 0) = 256
   \<and> entry (MSAProfileGenerator_generate (\<lambda>d. d) 2 rows256_two_classes rows256_all_valid) [0, 0, 0]
       = Inr (128 / 256)
   \<and> entry (MSAProfileGenerator_generate (\<lambda>d. d) 2 rows256_two_classes rows256_all_valid) [0, 0, 1]
       = Inr (128 / 256)"
proof -
  from unnormalized_entry [OF typecheck_two_classes in_vocab_two_classes] obtain U where
    U: "MSAProfileGenerator_unnormalized_profile 2 rows256_two_classes rows256_all_valid = Inr U"
       "shape U = [shape rows256_two_classes ! 0, shape rows256_two_classes ! 2, 2]"
       "\<And>i k c. elt U [i, k, c] = of_nat (length (class_rows rows256_two_classes rows256_all_valid i k c))"
    by blast
  have h: "0 < shape rows256_two_classes ! 0" "0 < shape rows256_two_classes ! 2"
    by (simp_all add: rows256_two_classes_def)
  have u2: "[0..<2] = [0, Suc 0]" by (simp add: upt_conv_Cons)
  have a: "entry (map_sum (\<lambda>e. e) MSAProfileGenerator_denom
            (MSAProfileGenerator_unnormalized_profile 2 rows256_two_classes rows256_all_valid))
         [0, 0, 0] = Inr 256"
    by (simp add: U entry_def MSAProfileGenerator_denom_def clamp_min_def map_tensor_def
        sum_last_keepdim_def u2 two_classes_rows0 two_classes_rows1)
  have b: "length (valid_rows rows256_all_valid 0 0) = 256"
    by (simp add: valid_rows_def rows256_all_valid_def)
  have c: "entry (MSAProfileGenerator_generate (\<lambda>d. d) 2 rows256_two_classes rows256_all_valid) [0, 0, 0]
       = Inr (128 / 256)"
    using profile_entry_formula [OF typecheck_two_classes in_vocab_two_classes h, of 0]
    by (simp add: u2 two_classes_rows0 two_classes_rows1)
  have d: "entry (MSAProfileGenerator_generate (\<lambda>d. d) 2 rows256_two_classes rows256_all_valid) [0, 0, 1]
       = Inr (128 / 256)"
    using profile_entry_formula [OF typecheck_two_classes in_vocab_two_classes h, of 1]
    by (simp add: u2 two_classes_rows0 two_classes_rows1)
  from a b c d show ?thesis by blast
qed

subsection \<open>Deletion mean\<close>

lemma mask_sum_nat:
  "sum_list (map (\<lambda>j. if P j then 1 else (0::nat)) xs) = length (filter P xs)"
  by (induction xs) simp_all

lemma mask_sum_real:
  "sum_list (map (\<lambda>j. if P j then 1 else (0::real)) xs) = real (length (filter P xs))"
  by (induction xs) simp_all

lemma deletion_mean_raw:
  assumes "typecheck2 M D"
  shows "entry (MSADeletionMeanGenerator_generate (\<lambda>d. d) M D) [i, k, 0] =
     Inr (if length (valid_rows M i k) = 0 then 0
          else sum_list (map (\<lambda>j. (if elt M [i, j, k] then 1 else 0) * real (unat (elt D [i, j, k])))
                 [0..<shape M ! 1]) / real (length (valid_rows M i k)))"
proof -
  from assms have eq: "shape D = shape M" by (simp add: typecheck2_def)
  show ?thesis
    using assms
    by (simp add: MSADeletionMeanGenerator_generate_def entry_def Let_def unsqueeze_last_def
        masked_mean_dim1_def map_tensor_def eq mask_sum_nat valid_rows_def del: length_0_conv)
qed

text \<open>
  C6. For inputs that pass the shape check, the deletion-mean feature at batch entry
  \<open>i\<close> and token position \<open>k\<close> (under the trailing dimension of size 1) is the sum
  over the rows of mask times deletion count divided by the sum of the mask, and it is
  exactly 0 where no row is valid: in particular where every row is invalid. The
  masked-mean utility is the one described by the specification.
\<close>

theorem deletion_mean_entry:
  assumes "typecheck2 main_msa_mask main_msa_deletion_matrix"
    and "i < shape main_msa_mask ! 0" and "k < shape main_msa_mask ! 2"
  shows "entry (MSADeletionMeanGenerator_generate (\<lambda>d. d) main_msa_mask main_msa_deletion_matrix) [i, k, 0] =
           Inr (if valid_rows main_msa_mask i k = [] then 0
                else sum_list (map (\<lambda>j. (if elt main_msa_mask [i, j, k] then 1 else 0)
                                          * real (unat (elt main_msa_deletion_matrix [i, j, k])))
                                [0..<shape main_msa_mask ! 1])
                     / sum_list (map (\<lambda>j. if elt main_msa_mask [i, j, k] then 1 else 0)
                                  [0..<shape main_msa_mask ! 1]))
         \<and> ((\<forall>j. j < shape main_msa_mask ! 1 \<longrightarrow> \<not> elt main_msa_mask [i, j, k]) \<longrightarrow>
              entry (MSADeletionMeanGenerator_generate (\<lambda>d. d) main_msa_mask main_msa_deletion_matrix) [i, k, 0]
                = Inr 0)"
proof -
  note raw = deletion_mean_raw [OF assms(1), of i k]
  have den: "sum_list (map (\<lambda>j. if elt main_msa_mask [i, j, k] then 1 else 0) [0..<shape main_msa_mask ! 1])
      = real (length (valid_rows main_msa_mask i k))"
    unfolding valid_rows_def by (rule mask_sum_real)
  have a: "entry (MSADeletionMeanGenerator_generate (\<lambda>d. d) main_msa_mask main_msa_deletion_matrix) [i, k, 0] =
           Inr (if valid_rows main_msa_mask i k = [] then 0
                else sum_list (map (\<lambda>j. (if elt main_msa_mask [i, j, k] then 1 else 0)
                                          * real (unat (elt main_msa_deletion_matrix [i, j, k])))
                                [0..<shape main_msa_mask ! 1])
                     / sum_list (map (\<lambda>j. if elt main_msa_mask [i, j, k] then 1 else 0)
                                  [0..<shape main_msa_mask ! 1]))"
    unfolding den raw by (cases "valid_rows main_msa_mask i k") simp_all
  have "valid_rows main_msa_mask i k = []"
    if "\<forall>j. j < shape main_msa_mask ! 1 \<longrightarrow> \<not> elt main_msa_mask [i, j, k]"
    using that by (simp add: valid_rows_def filter_empty_conv)
  with a show ?thesis by simp
qed

theorem deletion_mean_entry_witness:
  "typecheck2 (tensor3 1 3 2 [[[True, False], [True, False], [False, False]]])
              (tensor3 1 3 2 [[[1, 7], [4, 0], [9, 2 :: u8]]])
   \<and> entry (MSADeletionMeanGenerator_generate (\<lambda>d. d)
              (tensor3 1 3 2 [[[True, False], [True, False], [False, False]]])
              (tensor3 1 3 2 [[[1, 7], [4, 0], [9, 2]]])) [0, 0, 0] = Inr (5 / 2)
   \<and> entry (MSADeletionMeanGenerator_generate (\<lambda>d. d)
              (tensor3 1 3 2 [[[True, False], [True, False], [False, False]]])
              (tensor3 1 3 2 [[[1, 7], [4, 0], [9, 2]]])) [0, 1, 0] = Inr 0"
proof -
  have u3: "[0..<3] = [0, Suc 0, 2]" by (simp add: upt_conv_Cons)
  have tc: "typecheck2 (tensor3 1 3 2 [[[True, False], [True, False], [False, False]]])
              (tensor3 1 3 2 [[[1, 7], [4, 0], [9, 2 :: u8]]])"
    by (simp add: typecheck2_def tensor3_def)
  have h: "0 < shape (tensor3 1 3 2 [[[True, False], [True, False], [False, False]]]) ! 0"
    "0 < shape (tensor3 1 3 2 [[[True, False], [True, False], [False, False]]]) ! 2"
    "1 < shape (tensor3 1 3 2 [[[True, False], [True, False], [False, False]]]) ! 2"
    by (simp_all add: tensor3_def)
  from deletion_mean_entry [OF tc h(1,2)] deletion_mean_entry [OF tc h(1,3)] tc
  show ?thesis
    by (simp add: tensor3_def valid_rows_def u3)
qed

subsection \<open>Output shapes\<close>

text \<open>
  C9. On inputs that pass the shape check (and, for the profile, whose tokens are classes
  of the vocabulary; for the data source, with a class count that fits eight bits), every
  generator returns a tensor whose leading dimensions are those of its input: the
  MSA-level generators (tokens, has-deletion, deletion value, paired, data source) return
  the input shape \<open>[batch, depth, tokens]\<close> with a trailing dimension of size 1, and the
  TOKEN-level generators (profile, deletion mean) return \<open>[batch, tokens, channels]\<close>,
  dropping the depth dimension only.
\<close>

theorem generators_keep_leading_dims:
  "(typecheck1 x \<longrightarrow> shape_of (MSAFeatureGenerator_generate (\<lambda>d. d) x) = Inr (shape x @ [1]))
 \<and> (typecheck1 x \<longrightarrow> shape_of (MSAHasDeletionGenerator_generate (\<lambda>d. d) x) = Inr (shape x @ [1]))
 \<and> (typecheck1 x \<longrightarrow> shape_of (MSADeletionValueGenerator_generate (\<lambda>d. d) x) = Inr (shape x @ [1]))
 \<and> (typecheck2 x m \<and> in_vocab n x \<longrightarrow>
       shape_of (MSAProfileGenerator_generate (\<lambda>d. d) n x m) = Inr [shape x ! 0, shape x ! 2, n])
 \<and> (typecheck2 m x \<longrightarrow>
       shape_of (MSADeletionMeanGenerator_generate (\<lambda>d. d) m x) = Inr [shape x ! 0, shape x ! 2, 1])
 \<and> (typecheck2 m sp \<longrightarrow>
       shape_of (IsPairedMSAGenerator_generate (\<lambda>d. d) u m sp) = Inr (shape sp @ [1]))
 \<and> (typecheck2 m x \<and> 0 \<le> nc \<and> nc \<le> 255 \<longrightarrow>
       shape_of (MSADataSourceGenerator_generate (\<lambda>d. d) nc m x) = Inr (shape x @ [1]))"
proof -
  have p: "shape_of (MSAProfileGenerator_generate (\<lambda>d. d) n x m) = Inr [shape x ! 0, shape x ! 2, n]"
    if "typecheck2 x m" "in_vocab n x"
  proof -
    from scatter_ok [OF that] obtain U where
      U: "MSAProfileGenerator_unnormalized_profile n x m = Inr U" "shape U = [shape x ! 0, shape x ! 2, n]"
      by blast
    show ?thesis using that(1) U
      by (simp add: MSAProfileGenerator_generate_def shape_of_def Let_def true_divide_def
          broadcast2_def MSAProfileGenerator_denom_def clamp_min_def map_tensor_def sum_last_keepdim_def bshape_def)
  qed
  have q: "shape_of (IsPairedMSAGenerator_generate (\<lambda>d. d) u m sp) = Inr (shape sp @ [1])"
    if "typecheck2 m sp"
  proof -
    from that have len: "length (shape m) = 3" and eq: "shape sp = shape m"
      by (simp_all add: typecheck2_def)
    from len obtain b d t where s: "shape m = [b, d, t]" by (rule length3E)
    show ?thesis using that
      by (simp add: IsPairedMSAGenerator_generate_def shape_of_def Let_def unsqueeze_last_def
        masked_fill_def map_tensor_def broadcast2_def slice_last_to1_def bshape_def eq s)
  qed
  have r: "shape_of (MSADeletionMeanGenerator_generate (\<lambda>d. d) m x) = Inr [shape x ! 0, shape x ! 2, 1]"
    if "typecheck2 m x"
    using that
    by (simp add: MSADeletionMeanGenerator_generate_def shape_of_def Let_def unsqueeze_last_def
        masked_mean_dim1_def map_tensor_def)
  show ?thesis
    using p q r
    by (simp add: MSAFeatureGenerator_generate_def MSAHasDeletionGenerator_generate_def
        MSADeletionValueGenerator_generate_def MSADataSourceGenerator_generate_def
        shape_of_def Let_def unsqueeze_last_def map_tensor_def masked_fill_def typecheck2_def)
qed

theorem generators_keep_leading_dims_witness:
  "typecheck1 (tensor3 1 2 3 [[[1, 0, 5], [0, 0, 0 :: u8]]])
   \<and> typecheck2 (tensor3 1 2 3 [[[1, 0, 5], [0, 0, 0 :: u8]]])
                 (tensor3 1 2 3 [[[True, True, False], [True, False, False]]])
   \<and> in_vocab 6 (tensor3 1 2 3 [[[1, 0, 5], [0, 0, 0]]])
   \<and> typecheck2 (tensor3 1 2 3 [[[True, True, False], [True, False, False]]])
                 (tensor3 1 2 3 [[[7, 7, 8], [7, 9, 9 :: int]]])
   \<and> shape_of (MSAFeatureGenerator_generate (\<lambda>d. d) (tensor3 1 2 3 [[[1, 0, 5], [0, 0, 0]]]))
       = Inr [1, 2, 3, 1]
   \<and> shape_of (MSAHasDeletionGenerator_generate (\<lambda>d. d) (tensor3 1 2 3 [[[1, 0, 5], [0, 0, 0]]]))
       = Inr [1, 2, 3, 1]
   \<and> shape_of (MSADeletionValueGenerator_generate (\<lambda>d. d) (tensor3 1 2 3 [[[1, 0, 5], [0, 0, 0]]]))
       = Inr [1, 2, 3, 1]
   \<and> shape_of (MSAProfileGenerator_generate (\<lambda>d. d) 6 (tensor3 1 2 3 [[[1, 0, 5], [0, 0, 0]]])
                 (tensor3 1 2 3 [[[True, True, False], [True, False, False]]]))
       = Inr [1, 3, 6]
   \<and> shape_of (MSADeletionMeanGenerator_generate (\<lambda>d. d)
                 (tensor3 1 2 3 [[[True, True, False], [True, False, False]]])
                 (tensor3 1 2 3 [[[1, 0, 5], [0, 0, 0]]]))
       = Inr [1, 3, 1]
   \<and> shape_of (IsPairedMSAGenerator_generate (\<lambda>d. d) 0
                 (tensor3 1 2 3 [[[True, True, False], [True, False, False]]])
                 (tensor3 1 2 3 [[[7, 7, 8], [7, 9, 9]]]))
       = Inr [1, 2, 3, 1]
   \<and> shape_of (MSADataSourceGenerator_generate (\<lambda>d. d) 5
                 (tensor3 1 2 3 [[[True, True, False], [True, False, False]]])
                 (tensor3 1 2 3 [[[1, 0, 5], [0, 0, 0]]]))
       = Inr [1, 2, 3, 1]"
proof -
  have u3: "[0..<3] = [0, Suc 0, 2]" and u2: "[0..<2] = [0, Suc 0]" by (simp_all add: upt_conv_Cons)
  have iv: "in_vocab 6 (tensor3 1 2 3 [[[1, 0, 5], [0, 0, 0]]])"
    by (simp add: in_vocab_def tensor3_def u3 u2)
  from generators_keep_leading_dims [of "tensor3 1 2 3 [[[1, 0, 5], [0, 0, 0]]]"
      "tensor3 1 2 3 [[[True, True, False], [True, False, False]]]" 6
      "tensor3 1 2 3 [[[7, 7, 8], [7, 9, 9]]]" 0 5] iv
  show ?thesis
    by (simp add: typecheck1_def typecheck2_def tensor3_def)
qed

subsection \<open>Deletion features\<close>

text \<open>Polynomial bounds of the arc tangent on the non-negative reals, from the sign of
  the derivative of the difference, and the numerical bounds that follow from them.\<close>

lemma poly_lower_id: "(1 - y^2 + y^4 - y^6) * (1 + y\<^sup>2) = 1 - (y::real)^8"
  by (simp add: algebra_simps power2_eq_square power4_eq_xxxx power_numeral_reduce)

lemma poly_upper_id: "(1 - y^2 + y^4 - y^6 + y^8) * (1 + y\<^sup>2) = 1 + (y::real)^10"
  by (simp add: algebra_simps power2_eq_square power4_eq_xxxx power_numeral_reduce)

lemma deriv_lower:
  "DERIV (\<lambda>y::real. arctan y - (y - y^3 / 3 + y^5 / 5 - y^7 / 7)) y
     :> inverse (1 + y\<^sup>2) - (1 - y^2 + y^4 - y^6)"
  by (auto intro!: derivative_eq_intros)

lemma deriv_upper:
  "DERIV (\<lambda>y::real. (y - y^3 / 3 + y^5 / 5 - y^7 / 7 + y^9 / 9) - arctan y) y
     :> (1 - y^2 + y^4 - y^6 + y^8) - inverse (1 + y\<^sup>2)"
  by (auto intro!: derivative_eq_intros)

lemma arctan_lower:
  assumes "0 \<le> x"
  shows "x - x^3 / 3 + x^5 / 5 - x^7 / 7 \<le> arctan x"
proof -
  let ?f = "\<lambda>y::real. arctan y - (y - y^3 / 3 + y^5 / 5 - y^7 / 7)"
  have "\<exists>d. DERIV ?f y :> d \<and> 0 \<le> d" for y :: real
  proof -
    have pos: "0 < 1 + y\<^sup>2" by (simp add: add_pos_nonneg)
    have "(1 - y^2 + y^4 - y^6) * (1 + y\<^sup>2) \<le> 1"
      unfolding poly_lower_id by simp
    then have "1 - y^2 + y^4 - y^6 \<le> 1 / (1 + y\<^sup>2)"
      using pos by (simp only: pos_le_divide_eq)
    then have "0 \<le> inverse (1 + y\<^sup>2) - (1 - y^2 + y^4 - y^6)"
      by (simp only: inverse_eq_divide diff_ge_0_iff_ge)
    with deriv_lower [of y] show ?thesis by blast
  qed
  then have "?f 0 \<le> ?f x"
    by (rule DERIV_nonneg_imp_nondecreasing [OF assms])
  then show ?thesis by simp
qed

lemma arctan_upper:
  assumes "0 \<le> x"
  shows "arctan x \<le> x - x^3 / 3 + x^5 / 5 - x^7 / 7 + x^9 / 9"
proof -
  let ?f = "\<lambda>y::real. (y - y^3 / 3 + y^5 / 5 - y^7 / 7 + y^9 / 9) - arctan y"
  have "\<exists>d. DERIV ?f y :> d \<and> 0 \<le> d" for y :: real
  proof -
    have pos: "0 < 1 + y\<^sup>2" by (simp add: add_pos_nonneg)
    have "1 \<le> (1 - y^2 + y^4 - y^6 + y^8) * (1 + y\<^sup>2)"
      unfolding poly_upper_id by simp
    then have "1 / (1 + y\<^sup>2) \<le> 1 - y^2 + y^4 - y^6 + y^8"
      using pos by (simp only: pos_divide_le_eq)
    then have "0 \<le> (1 - y^2 + y^4 - y^6 + y^8) - inverse (1 + y\<^sup>2)"
      by (simp only: inverse_eq_divide diff_ge_0_iff_ge)
    with deriv_upper [of y] show ?thesis by blast
  qed
  then have "?f 0 \<le> ?f x"
    by (rule DERIV_nonneg_imp_nondecreasing [OF assms])
  then show ?thesis by simp
qed

lemma arctan_fifth: "0.1973955 \<le> arctan (1 / 5)" "arctan (1 / 5) \<le> 0.1973956"
proof -
  have "(0.1973955::real) \<le> (1/5) - (1/5)^3 / 3 + (1/5)^5 / 5 - (1/5)^7 / 7" by (simp add: power_divide)
  also have "\<dots> \<le> arctan (1 / 5)" by (rule arctan_lower) simp
  finally show "0.1973955 \<le> arctan (1 / 5)" .
  have "arctan (1 / 5 :: real) \<le> (1/5) - (1/5)^3 / 3 + (1/5)^5 / 5 - (1/5)^7 / 7 + (1/5)^9 / 9"
    by (rule arctan_upper) simp
  also have "\<dots> \<le> 0.1973956" by (simp add: power_divide)
  finally show "arctan (1 / 5) \<le> 0.1973956" .
qed

lemma arctan_239th: "0.004184 \<le> arctan (1 / 239)" "arctan (1 / 239) \<le> 0.0041841"
proof -
  have "(0.004184::real) \<le> (1/239) - (1/239)^3 / 3 + (1/239)^5 / 5 - (1/239)^7 / 7"
    by (simp add: power_divide)
  also have "\<dots> \<le> arctan (1 / 239)" by (rule arctan_lower) simp
  finally show "0.004184 \<le> arctan (1 / 239)" .
  have "arctan (1 / 239 :: real) \<le> (1/239) - (1/239)^3 / 3 + (1/239)^5 / 5 - (1/239)^7 / 7 + (1/239)^9 / 9"
    by (rule arctan_upper) simp
  also have "\<dots> \<le> 0.0041841" by (simp add: power_divide)
  finally show "arctan (1 / 239) \<le> 0.0041841" .
qed

lemma arctan_third: "0.321745 \<le> arctan (1 / 3)" "arctan (1 / 3) \<le> 0.321752"
proof -
  have "(0.321745::real) \<le> (1/3) - (1/3)^3 / 3 + (1/3)^5 / 5 - (1/3)^7 / 7"
    by (simp add: power_divide)
  also have "\<dots> \<le> arctan (1 / 3)" by (rule arctan_lower) simp
  finally show "0.321745 \<le> arctan (1 / 3)" .
  have "arctan (1 / 3 :: real) \<le> (1/3) - (1/3)^3 / 3 + (1/3)^5 / 5 - (1/3)^7 / 7 + (1/3)^9 / 9"
    by (rule arctan_upper) simp
  also have "\<dots> \<le> 0.321752" by (simp add: power_divide)
  finally show "arctan (1 / 3) \<le> 0.321752" .
qed

lemma arctan_quarter: "0.244978 \<le> arctan (1 / 4)" "arctan (1 / 4) \<le> 0.244979"
proof -
  have "(0.244978::real) \<le> (1/4) - (1/4)^3 / 3 + (1/4)^5 / 5 - (1/4)^7 / 7"
    by (simp add: power_divide)
  also have "\<dots> \<le> arctan (1 / 4)" by (rule arctan_lower) simp
  finally show "0.244978 \<le> arctan (1 / 4)" .
  have "arctan (1 / 4 :: real) \<le> (1/4) - (1/4)^3 / 3 + (1/4)^5 / 5 - (1/4)^7 / 7 + (1/4)^9 / 9"
    by (rule arctan_upper) simp
  also have "\<dots> \<le> 0.244979" by (simp add: power_divide)
  finally show "arctan (1 / 4) \<le> 0.244979" .
qed

lemma pi_bounds: "3.14159 < pi" "pi < 3.1416"
proof -
  have m: "pi = 16 * arctan (1 / 5) - 4 * arctan (1 / 239)"
    using machin by linarith
  show "3.14159 < pi" using arctan_fifth(1) arctan_239th(2) unfolding m by simp
  show "pi < 3.1416" using arctan_fifth(2) arctan_239th(1) unfolding m by simp
qed

lemma scale_zero: "scale 0 = 0"
  by (simp add: scale_def)

lemma scale_three: "scale 3 = 1 / 2"
  by (simp add: scale_def arctan_one)

lemma scale_strict_mono: "d < e \<Longrightarrow> scale d < scale e"
proof -
  assume "d < e"
  then have "arctan (d / 3) < arctan (e / 3)" by (simp add: arctan_less_iff)
  then show ?thesis by (simp add: scale_def divide_strict_right_mono)
qed

lemma scale_range: "0 \<le> d \<Longrightarrow> 0 \<le> scale d \<and> scale d < 1"
proof -
  assume "0 \<le> d"
  then have "0 \<le> arctan (d / 3)" by simp
  then have a: "0 \<le> scale d" by (simp add: scale_def)
  have "arctan (d / 3) < pi / 2" by (rule arctan_ubound)
  then have "2 * arctan (d / 3) < pi" by simp
  then have "scale d < 1" by (simp add: scale_def pos_divide_less_eq)
  with a show ?thesis by simp
qed

lemma scale_one_bounds: "0.2048 < scale 1" "scale 1 < 0.20485"
proof -
  have "0.2048 * pi < 2 * arctan (1 / 3)"
    using pi_bounds(2) arctan_third(1) by simp
  then show "0.2048 < scale 1"
    by (simp add: scale_def pos_less_divide_eq)
  have "2 * arctan (1 / 3) < 0.20485 * pi"
    using pi_bounds(1) arctan_third(2) by simp
  then show "scale 1 < 0.20485"
    by (simp add: scale_def pos_divide_less_eq)
qed

lemma arctan_five_thirds: "arctan (5 / 3) = pi / 4 + arctan (1 / 4)"
proof -
  have "arctan 1 + arctan (1 / 4) = arctan ((1 + 1 / 4) / (1 - 1 * (1 / 4)))"
    by (rule arctan_add) simp_all
  then show ?thesis by (simp add: arctan_one)
qed

lemma scale_five_bounds: "0.65595 < scale 5" "scale 5 < 0.656"
proof -
  have s: "scale 5 = 1 / 2 + 2 * arctan (1 / 4) / pi"
    by (simp add: scale_def arctan_five_thirds field_simps)
  have "0.15595 * pi < 2 * arctan (1 / 4)"
    using pi_bounds(2) arctan_quarter(1) by simp
  then have "0.15595 < 2 * arctan (1 / 4) / pi"
    by (simp add: pos_less_divide_eq)
  then show "0.65595 < scale 5" unfolding s by simp
  have "2 * arctan (1 / 4) < 0.156 * pi"
    using pi_bounds(1) arctan_quarter(2) by simp
  then have "2 * arctan (1 / 4) / pi < 0.156"
    by (simp add: pos_divide_less_eq)
  then show "scale 5 < 0.656" unfolding s by simp
qed

lemma deletion_value_entry:
  assumes "typecheck1 m" and "i < shape m ! 0" and "r < shape m ! 1" and "k < shape m ! 2"
  shows "entry (MSADeletionValueGenerator_generate (\<lambda>d. d) m) [i, r, k, 0]
           = Inr (scale (real (unat (elt m [i, r, k]))))"
  using assms
  by (simp add: MSADeletionValueGenerator_generate_def entry_def Let_def unsqueeze_last_def
      map_tensor_def scale_def)

text \<open>
  C5. With floating point read as exact real arithmetic, the deletion-value feature is,
  elementwise and under a trailing dimension of size 1, \<open>scale d = 2 / pi * arctan (d / 3)\<close>
  of the deletion count \<open>d\<close>; \<open>scale 0 = 0\<close>, \<open>scale 3 = 1 / 2\<close>, \<open>scale\<close> is
  strictly increasing, and \<open>0 \<le> scale d < 1\<close> for every non-negative \<open>d\<close>.
\<close>

theorem deletion_value_scale:
  "scale 0 = 0 \<and> scale 3 = 1 / 2
   \<and> (d < e \<longrightarrow> scale d < scale e)
   \<and> (0 \<le> d \<longrightarrow> 0 \<le> scale d \<and> scale d < 1)
   \<and> (typecheck1 m \<and> i < shape m ! 0 \<and> r < shape m ! 1 \<and> k < shape m ! 2 \<longrightarrow>
        entry (MSADeletionValueGenerator_generate (\<lambda>d. d) m) [i, r, k, 0]
          = Inr (scale (real (unat (elt m [i, r, k])))))"
  using scale_zero scale_three scale_strict_mono [of d e] scale_range [of d]
    deletion_value_entry [of m i r k]
  by blast

theorem deletion_value_scale_witness:
  "(1::real) < 2 \<and> scale 1 < scale 2 \<and> 0 \<le> scale 1 \<and> scale 1 < 1
   \<and> typecheck1 (tensor3 1 2 3 [[[1, 0, 5], [0, 0, 0 :: u8]]])
   \<and> entry (MSADeletionValueGenerator_generate (\<lambda>d. d) (tensor3 1 2 3 [[[1, 0, 5], [0, 0, 0]]]))
         [0, 0, 2, 0] = Inr (scale 5)"
  using deletion_value_scale [of 1 2 "tensor3 1 2 3 [[[1, 0, 5], [0, 0, 0]]]" 0 0 2]
  by (simp add: typecheck1_def tensor3_def)

text \<open>
  C7, with the values the code computes. For every deletion-count grid that passes the
  shape check, the has-deletion feature is elementwise \<open>count > 0\<close> under a trailing
  dimension of size 1. On the batch-1, depth-2, tokens-3 grid \<open>[[1, 0, 5], [0, 0, 0]]\<close>
  the has-deletion feature is \<open>[[T, F, T], [F, F, F]]\<close> and row 0 of the scaled feature
  is \<open>[scale 1, 0, scale 5]\<close>, which is \<open>[0.2048, 0, 0.6560]\<close> to four decimal places.
\<close>

theorem has_deletion_and_example:
  "(typecheck1 m \<and> i < shape m ! 0 \<and> r < shape m ! 1 \<and> k < shape m ! 2 \<longrightarrow>
      entry (MSAHasDeletionGenerator_generate (\<lambda>d. d) m) [i, r, k, 0] = Inr (0 < elt m [i, r, k]))
   \<and> squeezed_lists (MSAHasDeletionGenerator_generate (\<lambda>d. d) (tensor3 1 2 3 [[[1, 0, 5], [0, 0, 0]]]))
       = Inr [[[True, False, True], [False, False, False]]]
   \<and> squeezed_lists (MSADeletionValueGenerator_generate (\<lambda>d. d) (tensor3 1 2 3 [[[1, 0, 5], [0, 0, 0]]]))
       = Inr [[[scale 1, 0, scale 5], [0, 0, 0]]]
   \<and> \<bar>scale 1 - 0.2048\<bar> \<le> 0.00005 \<and> \<bar>scale 5 - 0.6560\<bar> \<le> 0.00005"
proof -
  have u3: "[0..<3] = [0, Suc 0, 2]" and u2: "[0..<2] = [0, Suc 0]" by (simp_all add: upt_conv_Cons)
  have a: "entry (MSAHasDeletionGenerator_generate (\<lambda>d. d) m) [i, r, k, 0] = Inr (0 < elt m [i, r, k])"
    if "typecheck1 m"
    using that
    by (simp add: MSAHasDeletionGenerator_generate_def entry_def Let_def unsqueeze_last_def map_tensor_def)
  have b: "squeezed_lists (MSAHasDeletionGenerator_generate (\<lambda>d. d) (tensor3 1 2 3 [[[1, 0, 5], [0, 0, 0]]]))
       = Inr [[[True, False, True], [False, False, False]]]"
    by (simp add: MSAHasDeletionGenerator_generate_def squeezed_lists_def Let_def unsqueeze_last_def
        map_tensor_def typecheck1_def tensor3_def u3 u2)
  have c: "squeezed_lists (MSADeletionValueGenerator_generate (\<lambda>d. d) (tensor3 1 2 3 [[[1, 0, 5], [0, 0, 0]]]))
       = Inr [[[scale 1, 0, scale 5], [0, 0, 0]]]"
    by (simp add: MSADeletionValueGenerator_generate_def squeezed_lists_def Let_def unsqueeze_last_def
        map_tensor_def typecheck1_def tensor3_def u3 u2 scale_def)
  have d: "\<bar>scale 1 - 0.2048\<bar> \<le> 0.00005"
    using scale_one_bounds by (simp add: abs_le_iff)
  have e: "\<bar>scale 5 - 0.6560\<bar> \<le> 0.00005"
    using scale_five_bounds by (simp add: abs_le_iff)
  from a b c d e show ?thesis by blast
qed

theorem has_deletion_and_example_witness:
  "typecheck1 (tensor3 1 2 3 [[[1, 0, 5], [0, 0, 0 :: u8]]])
   \<and> entry (MSAHasDeletionGenerator_generate (\<lambda>d. d) (tensor3 1 2 3 [[[1, 0, 5], [0, 0, 0]]]))
        [0, 0, 2, 0] = Inr True
   \<and> entry (MSAHasDeletionGenerator_generate (\<lambda>d. d) (tensor3 1 2 3 [[[1, 0, 5], [0, 0, 0]]]))
        [0, 1, 2, 0] = Inr False"
  using has_deletion_and_example [of "tensor3 1 2 3 [[[1, 0, 5], [0, 0, 0]]]" 0 0 2]
    has_deletion_and_example [of "tensor3 1 2 3 [[[1, 0, 5], [0, 0, 0]]]" 0 1 2]
  by (simp add: typecheck1_def tensor3_def)

text \<open>Row 0 of the scaled feature on that grid is not approximately
  \<open>[0.1949, 0, 0.5206]\<close>: its first entry is more than 0.009 away from 0.1949 and its
  third entry more than 0.1 away from 0.5206.\<close>

theorem scaled_example_counterexample:
  "squeezed_lists (MSADeletionValueGenerator_generate (\<lambda>d. d) (tensor3 1 2 3 [[[1, 0, 5], [0, 0, 0]]]))
       = Inr [[[scale 1, 0, scale 5], [0, 0, 0]]]
   \<and> 0.009 < \<bar>scale 1 - 0.1949\<bar> \<and> 0.1 < \<bar>scale 5 - 0.5206\<bar>"
proof -
  have u3: "[0..<3] = [0, Suc 0, 2]" and u2: "[0..<2] = [0, Suc 0]" by (simp_all add: upt_conv_Cons)
  have c: "squeezed_lists (MSADeletionValueGenerator_generate (\<lambda>d. d) (tensor3 1 2 3 [[[1, 0, 5], [0, 0, 0]]]))
       = Inr [[[scale 1, 0, scale 5], [0, 0, 0]]]"
    by (simp add: MSADeletionValueGenerator_generate_def squeezed_lists_def Let_def unsqueeze_last_def
        map_tensor_def typecheck1_def tensor3_def u3 u2 scale_def)
  have d: "0.009 < \<bar>scale 1 - 0.1949\<bar>"
    using scale_one_bounds(1) by simp
  have e: "0.1 < \<bar>scale 5 - 0.5206\<bar>"
    using scale_five_bounds(1) by simp
  from c d e show ?thesis by blast
qed

end
